theory Spec2Isabelle
  imports
    Complex_Main
    "HOL-Library.AList"
    "HOL-Library.Product_Lexorder"
    "HOL-Library.Word"
begin

section \<open>The facilitator of P06-Full (facilitator.py, web3\_utils.py)\<close>

subsection \<open>Registry records\<close>

text \<open>
  The facilitator writes exactly four status strings into a settlement dictionary:
  \<^verbatim>\<open>"created"\<close>, \<^verbatim>\<open>'funds_pulled'\<close>, \<^verbatim>\<open>'funded'\<close> and \<^verbatim>\<open>'settled'\<close>.
\<close>

datatype status = Created | Funds_pulled | Funded | Settled

text \<open>
  The amounts of the vault's events are ABI-decoded unsigned integers of at most 256 bits.
  The facilitator stores them as they come and never computes with them: it only prints
  \<^verbatim>\<open>amount / 10**6\<close> or \<^verbatim>\<open>amount / 10**18\<close>, a true division that raises
  \<^verbatim>\<open>OverflowError\<close> only for a quotient of \<open>2 ^ 1024\<close> or more, which no such amount reaches. So
  the prints raise nothing and are left out.
\<close>

type_synonym uint256 = "256 word"

text \<open>
  A settlement dictionary. The keys \<^verbatim>\<open>funded_block\<close> and \<^verbatim>\<open>funded_at\<close> exist only
  once \<^verbatim>\<open>_handle_vault_funded\<close> has added them, hence the options; \<^verbatim>\<open>funded_at\<close> holds a
  reading of \<^verbatim>\<open>time.time()\<close>.
\<close>

record settlement =
  client :: string
  seller :: string
  asset_token :: string
  asset_amount :: uint256
  required_usdc :: uint256
  max_eurc :: uint256
  status :: status
  block :: int
  funded_block :: "int option"
  funded_at :: "rat option"

text \<open>
  A decoded log entry of the vault contract: the fields of \<^verbatim>\<open>event['args']\<close> that the
  handlers read, then \<^verbatim>\<open>event['blockNumber']\<close> and the entry's log index. The
  settlement id is kept as the string \<^verbatim>\<open>args['settlementId'].hex()\<close>.
\<close>

datatype event =
    SettlementCreated
      (settlementId: string) (ev_client: string) (ev_seller: string) (assetToken: string)
      (assetAmount: uint256) (requiredUSDC: uint256) (maxEURC: uint256)
      (blockNumber: int) (logIndex: int)
  | FundsPulled
      (settlementId: string) (eurcAmount: uint256) (assetAmount: uint256)
      (blockNumber: int) (logIndex: int)
  | VaultFunded
      (settlementId: string) (ev_client: string) (usdcAmount: uint256) (args_blockNumber: int)
      (blockNumber: int) (logIndex: int)

text \<open>
  The transactions the facilitator hands to \<^verbatim>\<open>web3_utils.send_transaction\<close>: the function
  name with its arguments. The first argument of each is
  \<^verbatim>\<open>bytes.fromhex(settlement_id[2:])\<close>; a call is recorded, once that conversion has
  succeeded, with the registry key \<^verbatim>\<open>settlement_id\<close> it was built from.
\<close>

datatype tx_call =
    ExecuteSwap string uint256 uint256
  | ConfirmFinality string
  | ExecuteSettlement string

text \<open>
  What the ledger answers to one \<^verbatim>\<open>send_transaction\<close> / \<^verbatim>\<open>wait_for_transaction\<close> pair:
  sending raises, waiting for the receipt raises (a timeout is one such case), or a
  receipt arrives whose \<^verbatim>\<open>status\<close> field is the given integer.
\<close>

datatype tx_result = SendRaises | WaitRaises | Receipt int

datatype py_error = KeyError | ValueError | RpcError | OverflowError | CreateSettlementFailed

text \<open>
  The collaborators of one run: the answer to the \<open>n\<close>-th transaction that is sent and
  the \<open>n\<close>-th reading of \<^verbatim>\<open>time.time()\<close>.
\<close>

record world =
  tx_result_at :: "nat \<Rightarrow> tx_result"
  time_at :: "nat \<Rightarrow> rat"

text \<open>
  The mutable part of a \<^verbatim>\<open>Facilitator\<close>: its two dictionaries, in insertion order as
  Python keeps them, the transactions sent so far, and the number of clock readings
  taken so far.
\<close>

record fstate =
  pending_settlements :: "(string \<times> settlement) list"
  funded_settlements :: "(string \<times> settlement) list"
  calls :: "tx_call list"
  clock_reads :: nat

definition initial_fstate :: fstate where
  "initial_fstate =
     \<lparr>pending_settlements = [], funded_settlements = [], calls = [], clock_reads = 0\<rparr>"

subsection \<open>\<^verbatim>\<open>bytes.fromhex\<close>\<close>

text \<open>
  \<^verbatim>\<open>bytes.fromhex\<close> reads two hexadecimal digits for each byte and skips ASCII whitespace
  before a byte; anything else raises \<^verbatim>\<open>ValueError\<close>.
\<close>

definition is_space :: "char \<Rightarrow> bool" where
  "is_space c = (c \<in> set [CHR '' '', CHR 0x09, CHR 0x0A, CHR 0x0B, CHR 0x0C, CHR 0x0D])"

definition hex_value :: "char \<Rightarrow> nat option" where
  "hex_value c =
     (let n = (of_char c :: nat)
      in if 48 \<le> n \<and> n \<le> 57 then Some (n - 48)
         else if 97 \<le> n \<and> n \<le> 102 then Some (n - 87)
         else if 65 \<le> n \<and> n \<le> 70 then Some (n - 55)
         else None)"

fun fromhex :: "string \<Rightarrow> py_error + nat list" where
  "fromhex [] = Inr []"
| "fromhex [c] = (if is_space c then Inr [] else Inl ValueError)"
| "fromhex (c # d # ds) =
     (if is_space c then fromhex (d # ds)
      else
        (case (hex_value c, hex_value d) of
           (Some a, Some b) \<Rightarrow>
             (case fromhex ds of
                Inl e \<Rightarrow> Inl e
              | Inr bs \<Rightarrow> Inr ((16 * a + b) # bs))
         | _ \<Rightarrow> Inl ValueError))"

subsection \<open>Event handlers\<close>

text \<open>
  Each handler is called by \<^verbatim>\<open>_process_blocks\<close> on the entries of its own filter only; the
  last equation of each covers the other constructors, which never reach it.
  \<^verbatim>\<open>d[k] = v\<close> on a dictionary is \<^const>\<open>AList.update\<close>: the value is replaced in place when
  the key is present and appended otherwise.
\<close>

fun handle_settlement_created :: "fstate \<Rightarrow> event \<Rightarrow> fstate" where
  "handle_settlement_created st (SettlementCreated sid c s tok amt usdc eurc bn li) =
     st\<lparr>pending_settlements :=
          AList.update sid
            \<lparr>client = c, seller = s, asset_token = tok, asset_amount = amt,
             required_usdc = usdc, max_eurc = eurc, status = Created, block = bn,
             funded_block = None, funded_at = None\<rparr>
            (pending_settlements st)\<rparr>"
| "handle_settlement_created st _ = st"

text \<open>
  \<^verbatim>\<open>_execute_swap\<close>. Everything is inside \<^verbatim>\<open>try/except Exception\<close>. When
  \<^verbatim>\<open>bytes.fromhex(settlement_id[2:])\<close> raises, the argument list is never built and
  \<^verbatim>\<open>send_transaction\<close> is not called. Once it is called, the ledger's answer is only
  printed and does not reach the registry.
\<close>

definition execute_swap :: "fstate \<Rightarrow> string \<Rightarrow> fstate" where
  "execute_swap st settlement_id =
     (case map_of (pending_settlements st) settlement_id of
        None \<Rightarrow> st
      | Some settlement \<Rightarrow>
          (let eurc_amount = max_eurc settlement;
               min_usdc_out = required_usdc settlement
           in case fromhex (drop 2 settlement_id) of
                Inl e \<Rightarrow> st
              | Inr id_bytes \<Rightarrow>
                  st\<lparr>calls := calls st @ [ExecuteSwap settlement_id eurc_amount min_usdc_out]\<rparr>))"

fun handle_funds_pulled :: "fstate \<Rightarrow> event \<Rightarrow> fstate" where
  "handle_funds_pulled st (FundsPulled sid eurc amt bn li) =
     (case map_of (pending_settlements st) sid of
        None \<Rightarrow> st
      | Some settlement \<Rightarrow>
          execute_swap
            (st\<lparr>pending_settlements :=
                  AList.update sid (settlement\<lparr>status := Funds_pulled\<rparr>)
                    (pending_settlements st)\<rparr>)
            sid)"
| "handle_funds_pulled st _ = st"

fun handle_vault_funded :: "world \<Rightarrow> fstate \<Rightarrow> event \<Rightarrow> fstate" where
  "handle_vault_funded w st (VaultFunded sid c usdc abn bn li) =
     (case map_of (pending_settlements st) sid of
        None \<Rightarrow> st
      | Some settlement \<Rightarrow>
          st\<lparr>pending_settlements := AList.delete sid (pending_settlements st),
             funded_settlements :=
               AList.update sid
                 (settlement\<lparr>status := Funded, funded_block := Some abn,
                    funded_at := Some (time_at w (clock_reads st))\<rparr>)
                 (funded_settlements st),
             clock_reads := Suc (clock_reads st)\<rparr>)"
| "handle_vault_funded w st _ = st"

subsection \<open>Processing a poll window\<close>

definition is_created :: "event \<Rightarrow> bool" where
  "is_created e = (case e of SettlementCreated _ _ _ _ _ _ _ _ _ \<Rightarrow> True | _ \<Rightarrow> False)"

definition is_pulled :: "event \<Rightarrow> bool" where
  "is_pulled e = (case e of FundsPulled _ _ _ _ _ \<Rightarrow> True | _ \<Rightarrow> False)"

definition is_funded :: "event \<Rightarrow> bool" where
  "is_funded e = (case e of VaultFunded _ _ _ _ _ _ \<Rightarrow> True | _ \<Rightarrow> False)"

text \<open>
  What the node answers for one block range: the log entries of the range, in the order
  the node returns them, and for each of the three filters whether creating or reading it
  raises.
\<close>

datatype event_kind = Created_filter | Pulled_filter | Funded_filter

record window =
  log_entries :: "event list"
  filter_raises :: "event_kind \<Rightarrow> bool"

definition delivered :: "event list \<Rightarrow> window" where
  "delivered es = \<lparr>log_entries = es, filter_raises = (\<lambda>k. False)\<rparr>"

text \<open>
  \<^verbatim>\<open>_process_blocks\<close>. The filter of an event type returns the entries of that type, in
  the order delivered (\<^verbatim>\<open>get_all_entries()\<close>). The three loops run one after the other
  inside one \<^verbatim>\<open>try/except Exception\<close>: a filter that raises ends the processing of the
  window there, with the registry as the loops before it left it. Nothing is sorted.
\<close>

definition process_blocks :: "world \<Rightarrow> fstate \<Rightarrow> window \<Rightarrow> fstate" where
  "process_blocks w st win =
     (if filter_raises win Created_filter then st
      else
        (let st1 = foldl handle_settlement_created st (filter is_created (log_entries win))
         in if filter_raises win Pulled_filter then st1
            else
              (let st2 = foldl handle_funds_pulled st1 (filter is_pulled (log_entries win))
               in if filter_raises win Funded_filter then st2
                  else foldl (handle_vault_funded w) st2
                         (filter is_funded (log_entries win)))))"

subsection \<open>Finality\<close>

record config =
  FINALITY_CONFIRMATIONS :: int

text \<open>
  \<^verbatim>\<open>web3_utils.is_block_finalized\<close>. The reading of \<^verbatim>\<open>get_block_number()\<close> is an argument;
  \<open>None\<close> stands for a reading that raises.
\<close>

definition is_block_finalized ::
  "config \<Rightarrow> int option \<Rightarrow> int \<Rightarrow> int option \<Rightarrow> py_error + bool" where
  "is_block_finalized cfg reading block_number confirmations =
     (let confirmations' =
            (case confirmations of None \<Rightarrow> FINALITY_CONFIRMATIONS cfg | Some c \<Rightarrow> c)
      in case reading of
           None \<Rightarrow> Inl RpcError
         | Some current_block \<Rightarrow> Inr (current_block - block_number \<ge> confirmations'))"

text \<open>
  The first loop of \<^verbatim>\<open>_check_finality\<close>, which collects \<^verbatim>\<open>settlements_to_finalize\<close>.
  \<open>get_block_number sid\<close> is the chain height read while the settlement \<open>sid\<close> is examined.
  A record with status \<^verbatim>\<open>'funded'\<close> and no \<^verbatim>\<open>funded_block\<close> key raises \<^verbatim>\<open>KeyError\<close>.
\<close>

fun settlements_to_finalize ::
  "config \<Rightarrow> (string \<Rightarrow> int option) \<Rightarrow> (string \<times> settlement) list \<Rightarrow> py_error + string list"
where
  "settlements_to_finalize cfg get_block_number [] = Inr []"
| "settlements_to_finalize cfg get_block_number ((settlement_id, settlement) # rest) =
     (if status settlement = Funded then
        (case funded_block settlement of
           None \<Rightarrow> Inl KeyError
         | Some fb \<Rightarrow>
             (case is_block_finalized cfg (get_block_number settlement_id) fb None of
                Inl e \<Rightarrow> Inl e
              | Inr fin \<Rightarrow>
                  (case settlements_to_finalize cfg get_block_number rest of
                     Inl e \<Rightarrow> Inl e
                   | Inr acc \<Rightarrow> Inr (if fin then settlement_id # acc else acc))))
      else settlements_to_finalize cfg get_block_number rest)"

text \<open>
  \<^verbatim>\<open>_finalize_settlement\<close>. Every exception is caught by the enclosing
  \<^verbatim>\<open>try/except Exception\<close>, which leaves the registry as it is at that point: a missing
  record or \<^verbatim>\<open>funded_block\<close> key, \<^verbatim>\<open>bytes.fromhex(settlement_id[2:])\<close> raising before
  the first transaction is sent, and a transaction that cannot be sent or whose receipt
  does not arrive. The second conversion of the same id cannot fail where the first
  succeeded.
\<close>

definition finalize_settlement :: "world \<Rightarrow> fstate \<Rightarrow> string \<Rightarrow> fstate" where
  "finalize_settlement w st settlement_id =
     (case map_of (funded_settlements st) settlement_id of
        None \<Rightarrow> st
      | Some settlement \<Rightarrow>
          (case funded_block settlement of
             None \<Rightarrow> st
           | Some fb \<Rightarrow>
               (case fromhex (drop 2 settlement_id) of
                  Inl e \<Rightarrow> st
                | Inr id_bytes \<Rightarrow>
                    (let st1 = st\<lparr>calls := calls st @ [ConfirmFinality settlement_id]\<rparr>
                     in case tx_result_at w (length (calls st)) of
                          SendRaises \<Rightarrow> st1
                        | WaitRaises \<Rightarrow> st1
                        | Receipt r1 \<Rightarrow>
                            if r1 \<noteq> 1 then st1
                            else
                              (let st2 =
                                     st1\<lparr>calls := calls st1 @ [ExecuteSettlement settlement_id]\<rparr>
                               in case tx_result_at w (length (calls st1)) of
                                    SendRaises \<Rightarrow> st2
                                  | WaitRaises \<Rightarrow> st2
                                  | Receipt r2 \<Rightarrow>
                                      if r2 = 1 then
                                        st2\<lparr>funded_settlements :=
                                              AList.update settlement_id
                                                (settlement\<lparr>status := Settled\<rparr>)
                                                (funded_settlements st2)\<rparr>
                                      else st2)))))"

definition check_finality ::
  "world \<Rightarrow> config \<Rightarrow> (string \<Rightarrow> int option) \<Rightarrow> fstate \<Rightarrow> py_error + fstate" where
  "check_finality w cfg get_block_number st =
     (case settlements_to_finalize cfg get_block_number (funded_settlements st) of
        Inl e \<Rightarrow> Inl e
      | Inr ids \<Rightarrow> Inr (foldl (finalize_settlement w) st ids))"

text \<open>
  One iteration of the loop of \<^verbatim>\<open>_run_event_loop\<close>. The first component is \<open>None\<close> when
  the chain has not advanced past \<^verbatim>\<open>last_block\<close>, and otherwise holds the node's answer
  for the new block range; the second gives the heights read by the finality check. An
  exception out of \<^verbatim>\<open>_check_finality\<close> is swallowed by the loop's
  \<^verbatim>\<open>except Exception\<close>, and the next iteration goes on from the registry as it is.
\<close>

type_synonym iteration = "window option \<times> (string \<Rightarrow> int option)"

definition loop_iteration :: "world \<Rightarrow> config \<Rightarrow> fstate \<Rightarrow> iteration \<Rightarrow> fstate" where
  "loop_iteration w cfg st it =
     (let st1 = (case fst it of None \<Rightarrow> st | Some win \<Rightarrow> process_blocks w st win)
      in case check_finality w cfg (snd it) st1 of
           Inl e \<Rightarrow> st1
         | Inr st2 \<Rightarrow> st2)"


subsection \<open>Observations on the registry\<close>

text \<open>The position of a status on the path created, funds\_pulled, funded, settled.\<close>

fun rank :: "status \<Rightarrow> nat" where
  "rank Created = 1"
| "rank Funds_pulled = 2"
| "rank Funded = 3"
| "rank Settled = 4"

text \<open>
  The status the facilitator holds for a settlement id: that of its record in
  \<^verbatim>\<open>pending_settlements\<close>, else that of its record in \<^verbatim>\<open>funded_settlements\<close>, else none.
\<close>

definition recorded_status :: "fstate \<Rightarrow> string \<Rightarrow> status option" where
  "recorded_status st sid =
     (case map_of (pending_settlements st) sid of
        Some x \<Rightarrow> Some (status x)
      | None \<Rightarrow> map_option status (map_of (funded_settlements st) sid))"

definition rank_of :: "status option \<Rightarrow> nat" where
  "rank_of so = (case so of None \<Rightarrow> 0 | Some x \<Rightarrow> rank x)"

text \<open>The statuses recorded for one settlement id after each iteration of the loop.\<close>

fun status_history ::
  "world \<Rightarrow> config \<Rightarrow> fstate \<Rightarrow> iteration list \<Rightarrow> string \<Rightarrow> status option list" where
  "status_history w cfg st [] sid = []"
| "status_history w cfg st (it # its) sid =
     recorded_status (loop_iteration w cfg st it) sid
       # status_history w cfg (loop_iteration w cfg st it) its sid"


subsection \<open>In-order delivery, as the specification words it\<close>






subsection \<open>Auxiliary notions for the proofs\<close>


definition created_for :: "string \<Rightarrow> event \<Rightarrow> bool" where
  "created_for sid e = (is_created e \<and> settlementId e = sid)"

text \<open>The \<^verbatim>\<open>SettlementCreated\<close> entries for one id that an iteration hands to the handler.\<close>

definition creations :: "string \<Rightarrow> iteration \<Rightarrow> event list" where
  "creations sid it =
     (case fst it of
        None \<Rightarrow> []
      | Some win \<Rightarrow>
          if filter_raises win Created_filter then []
          else filter (created_for sid) (log_entries win))"

text \<open>
  A run in which no \<^verbatim>\<open>SettlementCreated\<close> event for the id is handled in an iteration that
  starts with the id recorded beyond created.
\<close>

fun no_late_creation :: "world \<Rightarrow> config \<Rightarrow> fstate \<Rightarrow> iteration list \<Rightarrow> string \<Rightarrow> bool" where
  "no_late_creation w cfg st [] sid = True"
| "no_late_creation w cfg st (it # its) sid =
     ((creations sid it \<noteq> [] \<longrightarrow> rank_of (recorded_status st sid) \<le> 1)
      \<and> no_late_creation w cfg (loop_iteration w cfg st it) its sid)"

definition absent :: "fstate \<Rightarrow> string \<Rightarrow> bool" where
  "absent st sid =
     (map_of (pending_settlements st) sid = None \<and> map_of (funded_settlements st) sid = None)"

text \<open>
  What holds of one settlement id in every registry the handlers build from the empty
  one: it is in one dictionary at most, a record in \<^verbatim>\<open>pending_settlements\<close> has status
  created or funds\_pulled, and a record in \<^verbatim>\<open>funded_settlements\<close> has status funded or
  settled.
\<close>

definition registry_inv :: "fstate \<Rightarrow> string \<Rightarrow> bool" where
  "registry_inv st sid =
     ((map_of (pending_settlements st) sid = None \<or> map_of (funded_settlements st) sid = None)
      \<and> (case map_of (pending_settlements st) sid of
            None \<Rightarrow> True
          | Some x \<Rightarrow> status x = Created \<or> status x = Funds_pulled)
      \<and> (case map_of (funded_settlements st) sid of
            None \<Rightarrow> True
          | Some x \<Rightarrow> status x = Funded \<or> status x = Settled))"

definition advances :: "string \<Rightarrow> fstate \<Rightarrow> fstate \<Rightarrow> bool" where
  "advances sid st st' =
     (registry_inv st' sid
      \<and> rank_of (recorded_status st sid) \<le> rank_of (recorded_status st' sid))"

text \<open>Two state transformers that can be applied in either order.\<close>

definition commute :: "(fstate \<Rightarrow> fstate) \<Rightarrow> (fstate \<Rightarrow> fstate) \<Rightarrow> bool" where
  "commute f g = (\<forall>s. f (g s) = g (f s))"


section \<open>Python floats\<close>

text \<open>
  A finite Python float is an IEEE 754 binary64 number; it is modelled by the rational
  number it denotes. Every arithmetic operation computes the exact result and rounds it to
  the nearest binary64 number, ties to the even significand. The operations used by the
  source are \<^verbatim>\<open>int / int\<close>, \<^verbatim>\<open>float * float\<close>, \<^verbatim>\<open>int * float\<close>, \<^verbatim>\<open>float * int\<close> and
  \<^verbatim>\<open>int(float)\<close>.
\<close>

function bit_length :: "int \<Rightarrow> nat" where
  "bit_length n = (if n \<le> 0 then 0 else Suc (bit_length (n div 2)))"
  by pat_completeness auto
termination
  by (relation "measure nat") auto

definition pow2 :: "int \<Rightarrow> rat" where
  "pow2 k = (if 0 \<le> k then 2 ^ nat k else 1 / 2 ^ nat (- k))"

definition round_half_even :: "rat \<Rightarrow> int" where
  "round_half_even x =
     (let f = \<lfloor>x\<rfloor>; d = x - of_int f
      in if d < 1 / 2 then f
         else if 1 / 2 < d then f + 1
         else if even f then f else f + 1)"

text \<open>
  The binary exponent \<open>e\<close> of a positive rational, \<open>2 ^ e \<le> x < 2 ^ (e + 1)\<close>: read off the
  integer part of \<open>x\<close> when \<open>1 \<le> x\<close>, and off the integer part of \<open>1 / x\<close> otherwise.
\<close>

definition float_exponent :: "rat \<Rightarrow> int" where
  "float_exponent x =
     (if 1 \<le> x then int (bit_length \<lfloor>x\<rfloor>) - 1
      else
        (let b = int (bit_length \<lfloor>1 / x\<rfloor>)
         in if pow2 (1 - b) \<le> x then 1 - b else - b))"

text \<open>
  Rounding to binary64: 53 significant bits, the least exponent of a unit in the last
  place is \<open>-1074\<close> (subnormal numbers), and a result of magnitude \<open>2 ^ 1024\<close> or more
  overflows. Python raises \<^verbatim>\<open>OverflowError\<close> when an \<^verbatim>\<open>int / int\<close> or an int-to-float
  conversion overflows; a float product that overflows is \<^verbatim>\<open>inf\<close>, which stays \<^verbatim>\<open>inf\<close>
  under the multiplications by positive constants that follow in the source and makes
  the closing \<^verbatim>\<open>int(...)\<close> raise \<^verbatim>\<open>OverflowError\<close>. In both cases the function that
  computes ends with that exception, so overflow is the error value here.
\<close>

definition round_to_double :: "rat \<Rightarrow> py_error + rat" where
  "round_to_double x =
     (if x = 0 then Inr 0
      else
        (let a = \<bar>x\<bar>;
             e = float_exponent a;
             q = max (e - 52) (- 1074);
             r = of_int (round_half_even (a / pow2 q)) * pow2 q
         in if pow2 1024 \<le> r then Inl OverflowError else Inr (sgn x * r)))"

definition int_truediv :: "int \<Rightarrow> int \<Rightarrow> py_error + rat" where
  "int_truediv a b = round_to_double (of_int a / of_int b)"

definition float_mul :: "rat \<Rightarrow> rat \<Rightarrow> py_error + rat" where
  "float_mul x y = round_to_double (x * y)"

definition float_of_int :: "int \<Rightarrow> py_error + rat" where
  "float_of_int n = round_to_double (of_int n)"

text \<open>\<^verbatim>\<open>int(x)\<close> on a finite float truncates towards zero.\<close>

definition py_int :: "rat \<Rightarrow> int" where
  "py_int x = (if 0 \<le> x then \<lfloor>x\<rfloor> else \<lceil>x\<rceil>)"

text \<open>
  The literals \<^verbatim>\<open>1.10\<close> and \<^verbatim>\<open>1.1\<close> denote the same float, the binary64 number nearest to
  \<open>11 / 10\<close>, which is \<^verbatim>\<open>0x1.199999999999ap+0\<close>.
\<close>

definition float_1_10 :: rat where
  "float_1_10 = 2476979795053773 / 2251799813685248"

definition bind_err :: "py_error + 'a \<Rightarrow> ('a \<Rightarrow> py_error + 'b) \<Rightarrow> py_error + 'b" where
  "bind_err r f = (case r of Inl e \<Rightarrow> Inl e | Inr x \<Rightarrow> f x)"

section \<open>Payment requirements and proofs (x402\_types.py)\<close>

record requirement_metadata =
  price_per_unit_usdc :: rat
  asset_decimals :: int
  settlement_decimals :: int

record X402PaymentRequirement =
  req_version :: string
  chain :: string
  chain_id :: int
  settlement_token :: string
  settlement_token_symbol :: string
  required_amount :: int
  settlement_vault :: string
  payment_deadline :: int
  req_asset_token :: string
  req_asset_amount :: int
  req_seller :: string
  metadata :: "requirement_metadata option"

text \<open>
  The dictionary that fills \<^verbatim>\<open>permit_signature\<close> is the dump of a \<^verbatim>\<open>PermitSignature\<close>
  (client.py builds it with \<^verbatim>\<open>permit_sig.model_dump()\<close>).
\<close>

record PermitSignature =
  sig_deadline :: int
  sig_v :: int
  sig_r :: string
  sig_s :: string

record X402PaymentProof =
  proof_version :: string
  client_address :: string
  payment_token :: string
  payment_token_symbol :: string
  max_payment_amount :: int
  permit_signature :: PermitSignature
  timestamp :: int
  proof_settlement_id :: "string option"

text \<open>
  The amount computed at the head of \<^verbatim>\<open>create_x402_payment_requirement\<close>, and again, with
  the price \<^verbatim>\<open>1.10\<close>, in \<^verbatim>\<open>handle_payment_submitted\<close>:
  \<^verbatim>\<open>int(asset_amount / (10 ** 18) * price_per_unit_usdc * (10 ** 6))\<close>.
\<close>

definition required_usdc_smallest :: "int \<Rightarrow> rat \<Rightarrow> py_error + int" where
  "required_usdc_smallest amount price =
     bind_err (int_truediv amount (10 ^ 18)) (\<lambda>asset_human.
     bind_err (float_mul asset_human price) (\<lambda>required_usdc_human.
     bind_err (float_of_int (10 ^ 6)) (\<lambda>million.
     bind_err (float_mul required_usdc_human million) (\<lambda>scaled.
     Inr (py_int scaled)))))"

text \<open>
  \<^verbatim>\<open>create_x402_payment_requirement\<close>. \<open>now\<close> is the reading of \<^verbatim>\<open>datetime.now()\<close> as Unix
  time in whole seconds: \<^verbatim>\<open>int(...)\<close> drops the fraction of a second of the timestamp, and
  the offset is a whole number of seconds. The field \<^verbatim>\<open>resource\<close>, a string built from
  the amount, is left out.
\<close>

definition create_x402_payment_requirement ::
  "int \<Rightarrow> int \<Rightarrow> rat \<Rightarrow> string \<Rightarrow> string \<Rightarrow> string \<Rightarrow> string \<Rightarrow> int
     \<Rightarrow> py_error + X402PaymentRequirement" where
  "create_x402_payment_requirement now amount price seller_address asset_token_address
       settlement_vault_address mock_usdc_address deadline_seconds =
     bind_err (required_usdc_smallest amount price) (\<lambda>required.
       Inr \<lparr>req_version = ''1.0'', chain = ''polygon-amoy'', chain_id = 80002,
            settlement_token = mock_usdc_address, settlement_token_symbol = ''MockUSDC'',
            required_amount = required, settlement_vault = settlement_vault_address,
            payment_deadline = now + deadline_seconds,
            req_asset_token = asset_token_address, req_asset_amount = amount,
            req_seller = seller_address,
            metadata = Some \<lparr>price_per_unit_usdc = price, asset_decimals = 18,
                             settlement_decimals = 6\<rparr>\<rparr>)"

section \<open>The seller's server (server.py)\<close>

text \<open>
  \<^verbatim>\<open>max_eurc = int(required_usdc * 1.10 * 1.1)\<close>: the integer is converted to a float and
  multiplied twice, from left to right.
\<close>

definition max_eurc_of :: "int \<Rightarrow> py_error + int" where
  "max_eurc_of required =
     bind_err (float_of_int required) (\<lambda>x.
     bind_err (float_mul x float_1_10) (\<lambda>y.
     bind_err (float_mul y float_1_10) (\<lambda>z.
     Inr (py_int z))))"

text \<open>
  What the ledger answers to \<^verbatim>\<open>create_settlement\<close>: a step raises, or the receipt is
  decoded into the settlement ids of its \<^verbatim>\<open>SettlementCreated\<close> logs.
\<close>

datatype create_result = CreateRaises | CreateLogs "string list"

definition create_settlement :: "create_result \<Rightarrow> py_error + string" where
  "create_settlement res =
     (case res of
        CreateRaises \<Rightarrow> Inl RpcError
      | CreateLogs [] \<Rightarrow> Inl CreateSettlementFailed
      | CreateLogs (sid # _) \<Rightarrow> Inr sid)"

record active_settlement =
  act_client :: string
  act_asset_amount :: int
  act_required_usdc :: int
  act_max_eurc :: int
  act_status :: string
  created_at :: int

record SettlementResponse =
  resp_settlement_id :: string
  resp_status :: string
  message :: string
  resp_required_usdc :: int
  resp_max_eurc :: int
  resp_asset_amount :: int
  tx_hash :: "string option"

text \<open>
  The answers of \<^verbatim>\<open>handle_payment_submitted\<close>: the three JSON bodies with their HTTP status,
  the body of the rejection with its three amounts (\<^verbatim>\<open>required_usdc\<close>, \<^verbatim>\<open>max_eurc\<close>,
  \<^verbatim>\<open>provided_eurc\<close>), and the exception that leaves the function uncaught.
\<close>

datatype response =
    Invalid_header_400
  | Insufficient_payment_400 int int int
  | Ok_200 SettlementResponse
  | Settlement_failed_500
  | Uncaught py_error

text \<open>
  \<^verbatim>\<open>handle_payment_submitted\<close>. \<open>parsed\<close> is the value of
  \<^verbatim>\<open>parse_x402_payment_header(payment_header)\<close>, \<open>res\<close> the ledger's answer, \<open>now\<close> the reading
  of \<^verbatim>\<open>int(time.time())\<close>. The result is the answer and the dictionary
  \<^verbatim>\<open>active_settlements\<close> afterwards. The function reads three things of the proof: whether
  it parsed, \<^verbatim>\<open>client_address\<close> and \<^verbatim>\<open>max_payment_amount\<close>.
\<close>

definition handle_payment_submitted ::
  "create_result \<Rightarrow> int \<Rightarrow> (string \<times> active_settlement) list \<Rightarrow> int
     \<Rightarrow> X402PaymentProof option \<Rightarrow> response \<times> (string \<times> active_settlement) list" where
  "handle_payment_submitted res now active_settlements amount parsed =
     (case parsed of
        None \<Rightarrow> (Invalid_header_400, active_settlements)
      | Some payment_proof \<Rightarrow>
          (case required_usdc_smallest amount float_1_10 of
             Inl e \<Rightarrow> (Uncaught e, active_settlements)
           | Inr required \<Rightarrow>
               (case max_eurc_of required of
                  Inl e \<Rightarrow> (Uncaught e, active_settlements)
                | Inr max_eurc' \<Rightarrow>
                    if max_payment_amount payment_proof < max_eurc' then
                      (Insufficient_payment_400 required max_eurc'
                         (max_payment_amount payment_proof),
                       active_settlements)
                    else
                      (case create_settlement res of
                         Inl e \<Rightarrow> (Settlement_failed_500, active_settlements)
                       | Inr sid \<Rightarrow>
                           (Ok_200
                              \<lparr>resp_settlement_id = sid, resp_status = ''created'',
                               message = ''Settlement created successfully'',
                               resp_required_usdc = required, resp_max_eurc = max_eurc',
                               resp_asset_amount = amount, tx_hash = None\<rparr>,
                            AList.update sid
                              \<lparr>act_client = client_address payment_proof,
                               act_asset_amount = amount,
                               act_required_usdc = required, act_max_eurc = max_eurc',
                               act_status = ''pending'', created_at = now\<rparr>
                              active_settlements)))))"

section \<open>Example data\<close>

text \<open>Two settlement ids as \<^verbatim>\<open>.hex()\<close> gives them: \<^verbatim>\<open>0x\<close> and 64 hexadecimal digits.\<close>

definition example_id :: string where
  "example_id = ''0x1111111111111111111111111111111111111111111111111111111111111111''"

definition other_id :: string where
  "other_id = ''0x2222222222222222222222222222222222222222222222222222222222222222''"

definition example_created :: event where
  "example_created =
     SettlementCreated example_id ''0xclient'' ''0xseller'' ''0xasset''
       (50 * 10 ^ 18) 55000000 66550000 100 0"

definition example_pulled :: event where
  "example_pulled = FundsPulled example_id 66550000 (50 * 10 ^ 18) 101 0"

definition example_funded :: event where
  "example_funded = VaultFunded example_id ''0xclient'' 55000000 102 102 0"





text \<open>A ledger on which every transaction is mined with status 1.\<close>

definition all_mined :: world where
  "all_mined = \<lparr>tx_result_at = (\<lambda>n. Receipt 1), time_at = (\<lambda>n. 0)\<rparr>"


text \<open>A poll tick during which every reading of the chain height gives \<open>h\<close>.\<close>

definition height :: "int \<Rightarrow> string \<Rightarrow> int option" where
  "height h = (\<lambda>sid. Some h)"

definition example_config :: config where
  "example_config = \<lparr>FINALITY_CONFIRMATIONS = 10\<rparr>"







text \<open>
  Runs of the event loop: one in which a settlement is created (the event delivered three
  times), pulled, funded and finalized; one in which the creation event is delivered again
  after the pull; two polls without events at heights where block 102 is final; and one in
  which the events of other stages of a settled settlement and the creation of another
  settlement arrive.
\<close>

definition example_run :: "iteration list" where
  "example_run =
     [(Some (delivered [example_created, example_created]), height 100),
      (Some (delivered [example_created]), height 100),
      (Some (delivered [example_pulled]), height 101),
      (Some (delivered [example_funded]), height 102),
      (None, height 111), (None, height 112), (None, height 113)]"

definition example_replay_run :: "iteration list" where
  "example_replay_run =
     [(Some (delivered [example_created]), height 100),
      (Some (delivered [example_pulled]), height 101),
      (Some (delivered [example_created]), height 102)]"




section \<open>Finality gating\<close>






lemma other_id_hex: "\<exists>b. fromhex (drop 2 other_id) = Inr b"
  by (simp add: other_id_def hex_value_def is_space_def)



section \<open>Swap bounds\<close>

lemma handle_funds_pulled_absent:
  "map_of (pending_settlements st) sid = None \<Longrightarrow>
   handle_funds_pulled st (FundsPulled sid eurc amt bn li) = st"
  by simp







section \<open>Replayed events\<close>





section \<open>Monotonic status\<close>

lemma advances_refl: "registry_inv st sid \<Longrightarrow> advances sid st st"
  by (simp add: advances_def)

lemma advances_trans: "advances sid a b \<Longrightarrow> advances sid b c \<Longrightarrow> advances sid a c"
  by (auto simp: advances_def)

lemma advances_inv: "advances sid a b \<Longrightarrow> registry_inv b sid"
  by (simp add: advances_def)

lemma handle_funds_pulled_advances:
  assumes "registry_inv st sid"
  shows "advances sid st (handle_funds_pulled st e)"
proof (cases e)
  case (FundsPulled k eurc amt bn li)
  show ?thesis
  proof (cases "map_of (pending_settlements st) k")
    case None
    with FundsPulled assms show ?thesis by (simp add: advances_refl)
  next
    case (Some x)
    with FundsPulled assms show ?thesis
      by (cases "k = sid")
         (auto simp: advances_def registry_inv_def recorded_status_def rank_of_def
            execute_swap_def update_conv' split: option.splits sum.splits)
  qed
qed (use assms in \<open>simp_all add: advances_refl\<close>)

lemma handle_vault_funded_advances:
  assumes "registry_inv st sid"
  shows "advances sid st (handle_vault_funded w st e)"
proof (cases e)
  case (VaultFunded k c usdc abn bn li)
  show ?thesis
  proof (cases "map_of (pending_settlements st) k")
    case None
    with VaultFunded assms show ?thesis by (simp add: advances_refl)
  next
    case (Some x)
    with VaultFunded assms show ?thesis
      by (cases "k = sid")
         (auto simp: advances_def registry_inv_def recorded_status_def rank_of_def
            update_conv' delete_conv' split: option.splits)
  qed
qed (use assms in \<open>simp_all add: advances_refl\<close>)

lemma finalize_settlement_advances:
  assumes "registry_inv st sid"
  shows "advances sid st (finalize_settlement w st k)"
proof (cases "k = sid")
  case True
  with assms show ?thesis
    by (cases "status (the (map_of (funded_settlements st) sid))")
       (auto simp: advances_def registry_inv_def recorded_status_def rank_of_def
          finalize_settlement_def Let_def update_conv'
          split: option.splits tx_result.splits sum.splits)
next
  case False
  with assms show ?thesis
    by (auto simp: advances_def registry_inv_def recorded_status_def rank_of_def
          finalize_settlement_def Let_def update_conv'
          split: option.splits tx_result.splits sum.splits)
qed

lemma foldl_advances:
  assumes step: "\<And>s e. registry_inv s sid \<Longrightarrow> advances sid s (f s e)"
  shows "registry_inv st sid \<Longrightarrow> advances sid st (foldl f st es)"
proof (induction es arbitrary: st)
  case Nil then show ?case by (simp add: advances_refl)
next
  case (Cons e es)
  from step[OF Cons.prems] have a: "advances sid st (f st e)" .
  then have "registry_inv (f st e) sid" by (simp add: advances_def)
  from Cons.IH[OF this] a show ?case by (auto intro: advances_trans)
qed

lemma created_other:
  assumes "\<not> created_for sid e"
  shows "map_of (pending_settlements (handle_settlement_created st e)) sid
           = map_of (pending_settlements st) sid"
    and "funded_settlements (handle_settlement_created st e) = funded_settlements st"
  using assms by (cases e; auto simp: created_for_def is_created_def update_conv')+

lemma created_other_status:
  assumes "\<not> created_for sid e"
  shows "recorded_status (handle_settlement_created st e) sid = recorded_status st sid"
    and "registry_inv (handle_settlement_created st e) sid = registry_inv st sid"
  by (simp_all add: recorded_status_def registry_inv_def created_other[OF assms]
      split: option.splits)

lemma created_early:
  assumes "created_for sid e" and "registry_inv st sid"
    and "rank_of (recorded_status st sid) \<le> 1"
  shows "registry_inv (handle_settlement_created st e) sid"
    and "recorded_status (handle_settlement_created st e) sid = Some Created"
proof -
  from assms(1) obtain c s tok amt usdc eurc bn li
    where e: "e = SettlementCreated sid c s tok amt usdc eurc bn li"
    by (cases e) (auto simp: created_for_def is_created_def)
  have f: "map_of (funded_settlements st) sid = None"
  proof (cases "map_of (funded_settlements st) sid")
    case (Some y)
    with assms(2) have p: "map_of (pending_settlements st) sid = None"
      and y: "status y = Funded \<or> status y = Settled"
      by (auto simp: registry_inv_def)
    with Some assms(3) show ?thesis
      by (auto simp: recorded_status_def rank_of_def)
  qed simp
  show "registry_inv (handle_settlement_created st e) sid"
    by (simp add: e registry_inv_def update_conv' f)
  show "recorded_status (handle_settlement_created st e) sid = Some Created"
    by (simp add: e recorded_status_def update_conv')
qed

lemma foldl_created:
  assumes "registry_inv st sid"
    and "filter (created_for sid) es \<noteq> [] \<longrightarrow> rank_of (recorded_status st sid) \<le> 1"
  shows "advances sid st (foldl handle_settlement_created st es)"
  using assms
proof (induction es arbitrary: st)
  case Nil then show ?case by (simp add: advances_refl)
next
  case (Cons e es)
  show ?case
  proof (cases "created_for sid e")
    case True
    with Cons.prems have r: "rank_of (recorded_status st sid) \<le> 1" by simp
    from created_early[OF True Cons.prems(1) r]
    have i1: "registry_inv (handle_settlement_created st e) sid"
      and s1: "recorded_status (handle_settlement_created st e) sid = Some Created" .
    have r1: "rank_of (recorded_status (handle_settlement_created st e) sid) \<le> 1"
      by (simp add: s1 rank_of_def)
    from r s1 have a: "advances sid st (handle_settlement_created st e)"
      by (cases "recorded_status st sid") (auto simp: advances_def i1 rank_of_def)
    from Cons.IH[OF i1] r1 have "advances sid (handle_settlement_created st e)
        (foldl handle_settlement_created (handle_settlement_created st e) es)" by simp
    with a show ?thesis by (auto intro: advances_trans)
  next
    case False
    from created_other_status[OF False, of st] Cons.prems(1)
    have i1: "registry_inv (handle_settlement_created st e) sid"
      and s1: "recorded_status (handle_settlement_created st e) sid = recorded_status st sid"
      by simp_all
    from Cons.prems(2) False s1
    have p: "filter (created_for sid) es \<noteq> []
        \<longrightarrow> rank_of (recorded_status (handle_settlement_created st e) sid) \<le> 1" by simp
    from Cons.IH[OF i1 p] s1 i1 show ?thesis by (simp add: advances_def)
  qed
qed

lemma filter_created_for:
  "filter (created_for sid) (filter is_created es) = filter (created_for sid) es"
  by (induction es) (auto simp: created_for_def)

lemma process_blocks_advances:
  assumes "registry_inv st sid"
    and "creations sid (Some win, g) \<noteq> [] \<longrightarrow> rank_of (recorded_status st sid) \<le> 1"
  shows "advances sid st (process_blocks w st win)"
proof (cases "filter_raises win Created_filter")
  case True
  with assms show ?thesis by (simp add: process_blocks_def advances_refl)
next
  case False
  let ?a = "foldl handle_settlement_created st (filter is_created (log_entries win))"
  let ?b = "foldl handle_funds_pulled ?a (filter is_pulled (log_entries win))"
  let ?c = "foldl (handle_vault_funded w) ?b (filter is_funded (log_entries win))"
  from assms(2) False
  have "filter (created_for sid) (log_entries win) \<noteq> []
      \<longrightarrow> rank_of (recorded_status st sid) \<le> 1"
    by (simp add: creations_def)
  then have "filter (created_for sid) (filter is_created (log_entries win)) \<noteq> []
      \<longrightarrow> rank_of (recorded_status st sid) \<le> 1"
    by (simp only: filter_created_for)
  from foldl_created[OF assms(1) this] have a: "advances sid st ?a" .
  from foldl_advances[of sid handle_funds_pulled, OF handle_funds_pulled_advances advances_inv[OF a]]
  have b: "advances sid ?a ?b" .
  from foldl_advances[of sid "handle_vault_funded w", OF handle_vault_funded_advances
      advances_inv[OF b]]
  have c: "advances sid ?b ?c" .
  from a b c have ab: "advances sid st ?b" and ac: "advances sid st ?c"
    by (auto intro: advances_trans)
  from False a ab ac show ?thesis
    by (simp add: process_blocks_def Let_def)
qed

lemma check_finality_advances:
  assumes "registry_inv st sid" and "check_finality w cfg g st = Inr st'"
  shows "advances sid st st'"
proof -
  from assms(2) obtain ids where "st' = foldl (finalize_settlement w) st ids"
    by (auto simp: check_finality_def split: sum.splits)
  with foldl_advances[of sid "finalize_settlement w", OF finalize_settlement_advances assms(1)]
  show ?thesis by simp
qed

lemma loop_iteration_advances:
  assumes "registry_inv st sid"
    and "creations sid it \<noteq> [] \<longrightarrow> rank_of (recorded_status st sid) \<le> 1"
  shows "advances sid st (loop_iteration w cfg st it)"
proof -
  define st1 where "st1 = (case fst it of None \<Rightarrow> st | Some win \<Rightarrow> process_blocks w st win)"
  have s1: "advances sid st st1"
  proof (cases "fst it")
    case None
    with assms show ?thesis by (simp add: st1_def advances_refl)
  next
    case (Some win)
    then have "it = (Some win, snd it)" by (cases it) simp
    with assms(2) have "creations sid (Some win, snd it) \<noteq> []
        \<longrightarrow> rank_of (recorded_status st sid) \<le> 1" by simp
    from process_blocks_advances[OF assms(1) this] Some show ?thesis by (simp add: st1_def)
  qed
  show ?thesis
  proof (cases "check_finality w cfg (snd it) st1")
    case (Inl e)
    then have "loop_iteration w cfg st it = st1" by (simp add: loop_iteration_def st1_def)
    with s1 show ?thesis by simp
  next
    case (Inr st2)
    then have l: "loop_iteration w cfg st it = st2" by (simp add: loop_iteration_def st1_def)
    from check_finality_advances[OF advances_inv[OF s1] Inr] s1 l show ?thesis
      by (auto intro: advances_trans)
  qed
qed

lemma status_history_sorted:
  assumes "registry_inv st sid" and "no_late_creation w cfg st its sid"
  shows "sorted (map rank_of (recorded_status st sid # status_history w cfg st its sid))"
  using assms
proof (induction its arbitrary: st)
  case Nil then show ?case by simp
next
  case (Cons it its)
  from Cons.prems(2)
  have p: "creations sid it \<noteq> [] \<longrightarrow> rank_of (recorded_status st sid) \<le> 1"
    and n: "no_late_creation w cfg (loop_iteration w cfg st it) its sid" by simp_all
  from loop_iteration_advances[OF Cons.prems(1) p]
  have a: "advances sid st (loop_iteration w cfg st it)" .
  from Cons.IH[OF advances_inv[OF a] n] a show ?case
    by (auto simp: advances_def intro: order.trans)
qed

lemma example_replay_history:
  "status_history all_mined example_config initial_fstate example_replay_run example_id
   = [Some Created, Some Funds_pulled, Some Created]"
  by code_simp

lemma example_run_history:
  "status_history all_mined example_config initial_fstate example_run example_id
   = [Some Created, Some Created, Some Funds_pulled, Some Funded, Some Funded,
      Some Settled, Some Settled]"
  by code_simp

lemma example_run_no_late_creation:
  "no_late_creation all_mined example_config initial_fstate example_run example_id"
  by code_simp

text \<open>
  Claim C2 as stated fails: when the \<^verbatim>\<open>SettlementCreated\<close> event of a settlement is
  delivered again after its \<^verbatim>\<open>FundsPulled\<close> event, the recorded status goes from
  funds\_pulled back to created.
\<close>

theorem status_regression_counterexample:
  "status_history all_mined example_config initial_fstate example_replay_run example_id
     = [Some Created, Some Funds_pulled, Some Created]
   \<and> \<not> sorted (map rank_of
         (status_history all_mined example_config initial_fstate example_replay_run
            example_id))"
  by (simp add: example_replay_history rank_of_def)

text \<open>
  Claim C2, amended. In every run of the event loop from the empty registry, whatever
  events are delivered and however often, the statuses recorded for a settlement id after
  each iteration never decrease along created, funds\_pulled, funded, settled, provided no
  \<^verbatim>\<open>SettlementCreated\<close> event for that id is handled in an iteration that starts when the
  id is already recorded beyond created.
\<close>

theorem status_monotone:
  assumes "no_late_creation w cfg initial_fstate its sid"
  shows "sorted (map rank_of (status_history w cfg initial_fstate its sid))"
proof -
  have "registry_inv initial_fstate sid"
    by (simp add: registry_inv_def initial_fstate_def)
  from status_history_sorted[OF this assms] show ?thesis by simp
qed

theorem status_monotone_witness:
  "no_late_creation all_mined example_config initial_fstate example_run example_id
   \<and> sorted (map rank_of
       (status_history all_mined example_config initial_fstate example_run example_id))
   \<and> status_history all_mined example_config initial_fstate example_run example_id
     = [Some Created, Some Created, Some Funds_pulled, Some Funded, Some Funded,
        Some Settled, Some Settled]"
  using status_monotone[OF example_run_no_late_creation] example_run_no_late_creation
  by (simp add: example_run_history)

section \<open>Finalization\<close>

lemma finalize_settlement_pending [simp]:
  "pending_settlements (finalize_settlement w st k) = pending_settlements st"
  by (simp add: finalize_settlement_def Let_def split: option.splits tx_result.splits sum.splits)









lemma foldl_finalize_pending [simp]:
  "pending_settlements (foldl (finalize_settlement w) st ids) = pending_settlements st"
  by (induction ids arbitrary: st) simp_all


















section \<open>Event order within a poll window\<close>




















end
